theory Spec2Isabelle
  imports Complex_Main
begin

section \<open>JavaScript numbers\<close>

text \<open>
  A JavaScript number is modelled by its value: a finite number is the real it denotes,
  and the three special values are constructors of their own. Everything the code decides
  with \<open>NaN\<close> and the infinities (a comparison with \<open>NaN\<close> is false,
  \<open>Math.log(0)\<close> is \<open>-Infinity\<close>, \<open>0 * Infinity\<close> is \<open>NaN\<close>) is kept, and so
  is the range of the numbers: a result too large becomes an infinity, and a result too
  small becomes zero. Within the range a result keeps its exact value (it is not rounded
  to 53 bits), and the two zeros are one value, the positive one.
\<close>

datatype jsnum = Fin real | PInf | NInf | NaN

text \<open>The sign of an infinite result.\<close>

definition signed_inf :: "bool \<Rightarrow> jsnum" where
  "signed_inf positive = (if positive then PInf else NInf)"

text \<open>
  The number that an operation returns when its exact result is \<open>x\<close>. A magnitude from
  \<open>2^1024 - 2^970\<close> on, half way between the largest number and \<open>2^1024\<close>, rounds
  to an infinity (overflow); a magnitude up to \<open>2^-1075\<close>, half the smallest positive
  number, rounds to zero (underflow).
\<close>

definition overflow_threshold :: real where
  "overflow_threshold = 2 ^ 1024 - 2 ^ 970"

definition underflow_threshold :: real where
  "underflow_threshold = 1 / 2 ^ 1075"

definition js_result :: "real \<Rightarrow> jsnum" where
  "js_result x =
     (if overflow_threshold \<le> \<bar>x\<bar> then signed_inf (0 < x)
      else if \<bar>x\<bar> \<le> underflow_threshold then Fin 0
      else Fin x)"

text \<open>The operators \<open>+\<close>, unary \<open>-\<close>, \<open>-\<close>, \<open>*\<close> and \<open>/\<close> on numbers.\<close>

fun js_add :: "jsnum \<Rightarrow> jsnum \<Rightarrow> jsnum" where
  "js_add NaN _ = NaN"
| "js_add _ NaN = NaN"
| "js_add (Fin a) (Fin b) = js_result (a + b)"
| "js_add PInf NInf = NaN"
| "js_add NInf PInf = NaN"
| "js_add PInf _ = PInf"
| "js_add NInf _ = NInf"
| "js_add (Fin a) PInf = PInf"
| "js_add (Fin a) NInf = NInf"

fun js_neg :: "jsnum \<Rightarrow> jsnum" where
  "js_neg (Fin a) = Fin (- a)"
| "js_neg PInf = NInf"
| "js_neg NInf = PInf"
| "js_neg NaN = NaN"

definition js_sub :: "jsnum \<Rightarrow> jsnum \<Rightarrow> jsnum" where
  "js_sub a b = js_add a (js_neg b)"

fun js_mul :: "jsnum \<Rightarrow> jsnum \<Rightarrow> jsnum" where
  "js_mul NaN _ = NaN"
| "js_mul _ NaN = NaN"
| "js_mul (Fin a) (Fin b) = js_result (a * b)"
| "js_mul (Fin a) PInf = (if a = 0 then NaN else signed_inf (0 < a))"
| "js_mul (Fin a) NInf = (if a = 0 then NaN else signed_inf (a < 0))"
| "js_mul PInf (Fin b) = (if b = 0 then NaN else signed_inf (0 < b))"
| "js_mul NInf (Fin b) = (if b = 0 then NaN else signed_inf (b < 0))"
| "js_mul PInf PInf = PInf"
| "js_mul PInf NInf = NInf"
| "js_mul NInf PInf = NInf"
| "js_mul NInf NInf = PInf"

fun js_div :: "jsnum \<Rightarrow> jsnum \<Rightarrow> jsnum" where
  "js_div NaN _ = NaN"
| "js_div _ NaN = NaN"
| "js_div (Fin a) (Fin b) =
     (if b = 0 then (if a = 0 then NaN else signed_inf (0 < a)) else js_result (a / b))"
| "js_div (Fin a) _ = Fin 0"
| "js_div PInf (Fin b) = signed_inf (0 \<le> b)"
| "js_div NInf (Fin b) = signed_inf (b < 0)"
| "js_div _ _ = NaN"

text \<open>
  The comparisons \<open>===\<close>, \<open>!==\<close> and \<open><=\<close> on numbers: every comparison with
  \<open>NaN\<close> is false, so \<open>NaN !== y\<close> is true.
\<close>

definition js_strict_eq :: "jsnum \<Rightarrow> jsnum \<Rightarrow> bool" where
  "js_strict_eq a b = (a \<noteq> NaN \<and> b \<noteq> NaN \<and> a = b)"

definition js_strict_neq :: "jsnum \<Rightarrow> jsnum \<Rightarrow> bool" where
  "js_strict_neq a b = (\<not> js_strict_eq a b)"

fun js_le :: "jsnum \<Rightarrow> jsnum \<Rightarrow> bool" where
  "js_le NaN _ = False"
| "js_le _ NaN = False"
| "js_le NInf _ = True"
| "js_le _ PInf = True"
| "js_le (Fin a) (Fin b) = (a \<le> b)"
| "js_le _ _ = False"

fun is_finite :: "jsnum \<Rightarrow> bool" where
  "is_finite (Fin a) = True"
| "is_finite _ = False"

subsection \<open>The functions of \<open>Math\<close> that the program calls\<close>

fun Math_abs :: "jsnum \<Rightarrow> jsnum" where
  "Math_abs (Fin a) = Fin \<bar>a\<bar>"
| "Math_abs PInf = PInf"
| "Math_abs NInf = PInf"
| "Math_abs NaN = NaN"

fun Math_log :: "jsnum \<Rightarrow> jsnum" where
  "Math_log (Fin a) = (if a < 0 then NaN else if a = 0 then NInf else js_result (ln a))"
| "Math_log PInf = PInf"
| "Math_log NInf = NaN"
| "Math_log NaN = NaN"

fun Math_exp :: "jsnum \<Rightarrow> jsnum" where
  "Math_exp (Fin a) = js_result (exp a)"
| "Math_exp PInf = PInf"
| "Math_exp NInf = Fin 0"
| "Math_exp NaN = NaN"

fun Math_cos :: "jsnum \<Rightarrow> jsnum" where
  "Math_cos (Fin a) = js_result (cos a)"
| "Math_cos _ = NaN"

fun Math_sin :: "jsnum \<Rightarrow> jsnum" where
  "Math_sin (Fin a) = js_result (sin a)"
| "Math_sin _ = NaN"

text \<open>\<open>Math.atan2(y, x)\<close>: the angle of the point \<open>(x, y)\<close>, in \<open>(-\<pi>, \<pi>]\<close>.\<close>

fun Math_atan2 :: "jsnum \<Rightarrow> jsnum \<Rightarrow> jsnum" where
  "Math_atan2 NaN _ = NaN"
| "Math_atan2 _ NaN = NaN"
| "Math_atan2 (Fin y) (Fin x) =
     (if 0 < x then js_result (arctan (y / x))
      else if x < 0 then
        (if 0 \<le> y then js_result (arctan (y / x) + pi) else js_result (arctan (y / x) - pi))
      else if 0 < y then Fin (pi / 2)
      else if y < 0 then Fin (- pi / 2)
      else Fin 0)"
| "Math_atan2 (Fin y) PInf = Fin 0"
| "Math_atan2 (Fin y) NInf = (if 0 \<le> y then Fin pi else Fin (- pi))"
| "Math_atan2 PInf (Fin x) = Fin (pi / 2)"
| "Math_atan2 NInf (Fin x) = Fin (- pi / 2)"
| "Math_atan2 PInf PInf = Fin (pi / 4)"
| "Math_atan2 PInf NInf = Fin (3 * pi / 4)"
| "Math_atan2 NInf PInf = Fin (- pi / 4)"
| "Math_atan2 NInf NInf = Fin (- 3 * pi / 4)"

text \<open>
  \<open>Math.pow(base, exponent)\<close>, in the order of the cases of the language definition:
  a \<open>NaN\<close> exponent, a zero exponent, a \<open>NaN\<close> base, the infinite and zero bases, the
  infinite exponents, a negative base with a fractional exponent, and the real power,
  which overflows and underflows as every result does: \<open>Math.pow(x, 2)\<close> is \<open>0\<close> for
  a number \<open>x\<close> as small as \<open>2^-600\<close>.
\<close>

definition is_integer :: "real \<Rightarrow> bool" where
  "is_integer y = (y = of_int \<lfloor>y\<rfloor>)"

definition is_odd_integer :: "real \<Rightarrow> bool" where
  "is_odd_integer y = (is_integer y \<and> odd \<lfloor>y\<rfloor>)"

fun Math_pow :: "jsnum \<Rightarrow> jsnum \<Rightarrow> jsnum" where
  "Math_pow _ NaN = NaN"
| "Math_pow b (Fin y) =
     (if y = 0 then Fin 1
      else case b of
        NaN \<Rightarrow> NaN
      | PInf \<Rightarrow> (if 0 < y then PInf else Fin 0)
      | NInf \<Rightarrow> (if 0 < y then (if is_odd_integer y then NInf else PInf) else Fin 0)
      | Fin x \<Rightarrow>
          (if x = 0 then (if 0 < y then Fin 0 else PInf)
           else if 0 < x then js_result (x powr y)
           else if is_odd_integer y then js_result (- ((- x) powr y))
           else if is_integer y then js_result ((- x) powr y)
           else NaN))"
| "Math_pow b PInf =
     (case b of
        NaN \<Rightarrow> NaN
      | Fin x \<Rightarrow> (if 1 < \<bar>x\<bar> then PInf else if \<bar>x\<bar> = 1 then NaN else Fin 0)
      | _ \<Rightarrow> PInf)"
| "Math_pow b NInf =
     (case b of
        NaN \<Rightarrow> NaN
      | Fin x \<Rightarrow> (if 1 < \<bar>x\<bar> then Fin 0 else if \<bar>x\<bar> = 1 then NaN else PInf)
      | _ \<Rightarrow> Fin 0)"

section \<open>The class \<open>Complex\<close> (src/script.js)\<close>

record Complex_obj =
  re :: jsnum
  im :: jsnum

text \<open>\<open>new Complex(re, im)\<close> on two numbers; \<open>Number\<close> leaves a number as it is.\<close>

definition new_Complex :: "jsnum \<Rightarrow> jsnum \<Rightarrow> Complex_obj" where
  "new_Complex r i = \<lparr>re = r, im = i\<rparr>"

record polar =
  r :: jsnum
  theta :: jsnum

text \<open>
  The static methods \<open>add\<close>, \<open>subtract\<close>, \<open>multiply\<close>, \<open>divide\<close>, \<open>ln\<close> and
  \<open>raise\<close> first wrap an argument that is not a \<open>Complex\<close> object
  (\<open>if (num1.constructor !== Complex) num1 = new Complex(num1)\<close>). The definitions
  below are the methods on \<open>Complex\<close> objects, where that line does nothing; the
  wrapping is \<open>coerce\<close>, further down, where the interpreter calls the methods on
  whatever its stack holds.
\<close>

definition Complex_toPolar :: "Complex_obj \<Rightarrow> polar" where
  "Complex_toPolar num =
     \<lparr>r = Math_pow (js_add (Math_pow (re num) (Fin 2)) (Math_pow (im num) (Fin 2))) (Fin (1/2)),
      theta = Math_atan2 (im num) (re num)\<rparr>"

definition Complex_fromPolar :: "jsnum \<Rightarrow> jsnum \<Rightarrow> Complex_obj" where
  "Complex_fromPolar rr th = new_Complex (js_mul rr (Math_cos th)) (js_mul rr (Math_sin th))"

definition Complex_abs :: "Complex_obj \<Rightarrow> Complex_obj" where
  "Complex_abs num = new_Complex (r (Complex_toPolar num)) (Fin 0)"

text \<open>
  The numbers whose square underflows: for these \<open>Math.pow(x, 2)\<close> is \<open>0\<close>, though
  \<open>x\<close> need not be.
\<close>

fun square_underflows :: "jsnum \<Rightarrow> bool" where
  "square_underflows (Fin x) = (x\<^sup>2 \<le> underflow_threshold)"
| "square_underflows _ = False"

text \<open>
  The values that a square, a sum of two squares and its root can take: \<open>NaN\<close>,
  \<open>Infinity\<close>, zero, or a number above the underflow threshold.
\<close>

definition magnitude_like :: "jsnum \<Rightarrow> bool" where
  "magnitude_like p =
     (p = NaN \<or> p = PInf \<or> p = Fin 0 \<or> (\<exists>v. p = Fin v \<and> underflow_threshold < v))"

definition Complex_add :: "Complex_obj \<Rightarrow> Complex_obj \<Rightarrow> Complex_obj" where
  "Complex_add num1 num2 = new_Complex (js_add (re num1) (re num2)) (js_add (im num1) (im num2))"

definition Complex_subtract :: "Complex_obj \<Rightarrow> Complex_obj \<Rightarrow> Complex_obj" where
  "Complex_subtract num1 num2 = new_Complex (js_sub (re num1) (re num2)) (js_sub (im num1) (im num2))"

definition Complex_multiply :: "Complex_obj \<Rightarrow> Complex_obj \<Rightarrow> Complex_obj" where
  "Complex_multiply in1 in2 =
     (let num1 = js_mul (re in1) (re in2);
          num2 = js_mul (im in1) (re in2);
          num3 = js_mul (re in1) (im in2);
          num4 = js_mul (im in1) (im in2)
      in new_Complex (js_sub num1 num4) (js_add num2 num3))"

definition Complex_ln :: "Complex_obj \<Rightarrow> Complex_obj" where
  "Complex_ln num1 = (let p = Complex_toPolar num1 in new_Complex (Math_log (r p)) (theta p))"

definition Complex_raise :: "Complex_obj \<Rightarrow> Complex_obj \<Rightarrow> Complex_obj" where
  "Complex_raise num1 num2 =
     (if js_strict_eq (re (Complex_abs num1)) (Fin 0) \<and> js_strict_neq (re (Complex_abs num2)) (Fin 0)
      then new_Complex (Fin 0) (Fin 0)
      else
        let num1Polar = Complex_toPolar num1;
            absB = r num1Polar;
            argB = theta num1Polar
        in Complex_fromPolar
             (Math_exp (js_sub (js_mul (re num2) (Math_log absB)) (js_mul (im num2) argB)))
             (js_add (js_mul (im num2) (Math_log absB)) (js_mul (re num2) argB)))"

text \<open>
  \<open>divide\<close> hands the number \<open>-1\<close> to \<open>raise\<close>, which wraps it as \<open>new Complex(-1)\<close>.
\<close>

definition Complex_divide :: "Complex_obj \<Rightarrow> Complex_obj \<Rightarrow> Complex_obj" where
  "Complex_divide num1 num2 = Complex_multiply num1 (Complex_raise num2 (new_Complex (Fin (- 1)) (Fin 0)))"

section \<open>Strings and the conversion of a string to a number\<close>

text \<open>
  A string is a list of characters; the characters are those below 256. The white space
  that \<open>trim\<close>, the pattern \<open>\s\<close> and \<open>Number\<close> skip is, in that range, the tab,
  the four line and page breaks, the space and the no-break space.
\<close>

definition is_whitespace :: "char \<Rightarrow> bool" where
  "is_whitespace c = (of_char c \<in> {9, 10, 11, 12, 13, 32, 160 :: nat})"

definition trim :: "string \<Rightarrow> string" where
  "trim s = rev (dropWhile is_whitespace (rev (dropWhile is_whitespace s)))"

definition is_digit :: "char \<Rightarrow> bool" where
  "is_digit c = (48 \<le> (of_char c :: nat) \<and> (of_char c :: nat) \<le> 57)"

text \<open>The value of a digit in a radix up to 16, when it is one.\<close>

definition digit_value :: "nat \<Rightarrow> char \<Rightarrow> nat option" where
  "digit_value radix c =
     (let n = (of_char c :: nat);
          v = (if 48 \<le> n \<and> n \<le> 57 then Some (n - 48)
               else if 97 \<le> n \<and> n \<le> 102 then Some (n - 87)
               else if 65 \<le> n \<and> n \<le> 70 then Some (n - 55)
               else None)
      in case v of None \<Rightarrow> None | Some d \<Rightarrow> if d < radix then Some d else None)"

definition all_digits :: "nat \<Rightarrow> string \<Rightarrow> bool" where
  "all_digits radix ds = (ds \<noteq> [] \<and> list_all (\<lambda>c. digit_value radix c \<noteq> None) ds)"

definition digits_value :: "nat \<Rightarrow> string \<Rightarrow> nat" where
  "digits_value radix ds = foldl (\<lambda>acc c. acc * radix + (case digit_value radix c of None \<Rightarrow> 0 | Some d \<Rightarrow> d)) 0 ds"

text \<open>\<open>0x\<close>, \<open>0o\<close> and \<open>0b\<close> literals; they take no sign.\<close>

definition radix_of_prefix :: "char \<Rightarrow> nat option" where
  "radix_of_prefix c =
     (if c = CHR ''x'' \<or> c = CHR ''X'' then Some 16
      else if c = CHR ''o'' \<or> c = CHR ''O'' then Some 8
      else if c = CHR ''b'' \<or> c = CHR ''B'' then Some 2
      else None)"

fun non_decimal_literal :: "string \<Rightarrow> jsnum option" where
  "non_decimal_literal (z # p # ds) =
     (if z = CHR ''0'' then
        (case radix_of_prefix p of
           None \<Rightarrow> None
         | Some radix \<Rightarrow>
             if all_digits radix ds then Some (js_result (real (digits_value radix ds))) else None)
      else None)"
| "non_decimal_literal _ = None"

text \<open>The exponent part of a decimal literal: nothing, or \<open>e\<close>, an optional sign and digits.\<close>

fun exponent_part :: "string \<Rightarrow> int option" where
  "exponent_part [] = Some 0"
| "exponent_part (c # t) =
     (if c = CHR ''e'' \<or> c = CHR ''E'' then
        (case t of
           [] \<Rightarrow> None
         | s # d \<Rightarrow>
             if s = CHR ''+'' then (if all_digits 10 d then Some (int (digits_value 10 d)) else None)
             else if s = CHR ''-'' then (if all_digits 10 d then Some (- int (digits_value 10 d)) else None)
             else if all_digits 10 t then Some (int (digits_value 10 t)) else None)
      else None)"

definition scale10 :: "real \<Rightarrow> int \<Rightarrow> real" where
  "scale10 m ex = (if 0 \<le> ex then m * 10 ^ nat ex else m / 10 ^ nat (- ex))"

text \<open>
  An unsigned decimal literal: \<open>Infinity\<close>, or digits with an optional fraction and
  exponent, at least one digit before or after the point. Anything else is \<open>NaN\<close>.
\<close>

definition unsigned_decimal :: "string \<Rightarrow> jsnum" where
  "unsigned_decimal u =
     (if u = ''Infinity'' then PInf
      else
        let ip = takeWhile is_digit u;
            r1 = dropWhile is_digit u;
            has_point = (r1 \<noteq> [] \<and> hd r1 = CHR ''.'');
            fp = (if has_point then takeWhile is_digit (tl r1) else []);
            r2 = (if has_point then dropWhile is_digit (tl r1) else r1)
        in if ip = [] \<and> fp = [] then NaN
           else case exponent_part r2 of
                  None \<Rightarrow> NaN
                | Some ex \<Rightarrow>
                    js_result (scale10 (real (digits_value 10 ip)
                                        + real (digits_value 10 fp) / 10 ^ length fp) ex))"

text \<open>\<open>Number(s)\<close> for a string \<open>s\<close>: the empty or blank string is \<open>0\<close>.\<close>

definition StringToNumber :: "string \<Rightarrow> jsnum" where
  "StringToNumber s =
     (let t = trim s
      in if t = [] then Fin 0
         else case non_decimal_literal t of
                Some v \<Rightarrow> v
              | None \<Rightarrow>
                  if hd t = CHR ''+'' then unsigned_decimal (tl t)
                  else if hd t = CHR ''-'' then js_neg (unsigned_decimal (tl t))
                  else unsigned_decimal t)"

section \<open>Values\<close>

text \<open>
  What a slot of the interpreter's stack, a variable or a property can hold: a
  \<open>Complex\<close> object, a number, a string (the value of a variable of type \<open>time\<close> is
  the text of its input element), \<open>undefined\<close>, or one of the objects that every object
  inherits from \<open>Object.prototype\<close>, named by its property.
\<close>

datatype val =
    VComplex Complex_obj
  | VNumber jsnum
  | VString string
  | VUndefined
  | VInherited string

text \<open>
  The code has no error type of its own. What it can raise is the \<open>TypeError\<close> of
  reading a property of \<open>undefined\<close> and the \<open>RangeError\<close> of a negative array
  length. \<open>Outside_model\<close> is not an exception: it marks an evaluation that goes on in
  a way this model does not follow, after the prototype of an object is replaced (see
  \<open>set_property\<close>) or inside a method that is not among the sources.
\<close>

datatype js_error = TypeError | RangeError

datatype 'a outcome = Value 'a | Throw js_error | Outside_model

definition bind_outcome :: "'a outcome \<Rightarrow> ('a \<Rightarrow> 'b outcome) \<Rightarrow> 'b outcome" where
  "bind_outcome m f = (case m of Value x \<Rightarrow> f x | Throw e \<Rightarrow> Throw e | Outside_model \<Rightarrow> Outside_model)"

text \<open>
  \<open>Number(v)\<close>. An object that is not a number or a string converts through its text
  (\<open>[object Object]\<close>, the source of a function), which is not a numeric literal.
\<close>

fun Number_of :: "val \<Rightarrow> jsnum" where
  "Number_of (VNumber n) = n"
| "Number_of (VString s) = StringToNumber s"
| "Number_of _ = NaN"

text \<open>
  \<open>if (num.constructor !== Complex) num = new Complex(num)\<close>: reading \<open>constructor\<close>
  of \<open>undefined\<close> throws; a \<open>Complex\<close> object is kept; any other value \<open>v\<close> becomes
  \<open>new Complex(v)\<close>, that is \<open>(Number(v), 0)\<close>.
\<close>

fun coerce :: "val \<Rightarrow> Complex_obj outcome" where
  "coerce VUndefined = Throw TypeError"
| "coerce (VComplex c) = Value c"
| "coerce v = Value (new_Complex (Number_of v) (Fin 0))"

text \<open>
  \<open>Complex.abs\<close> and \<open>Complex.toPolar\<close> do not wrap their argument: they read its
  \<open>re\<close> and \<open>im\<close>. On \<open>undefined\<close> that throws, and on a value without these
  properties both reads give \<open>undefined\<close>, which \<open>Math.pow\<close> and \<open>Math.atan2\<close>
  take as \<open>NaN\<close>.
\<close>

fun read_fields :: "val \<Rightarrow> Complex_obj outcome" where
  "read_fields VUndefined = Throw TypeError"
| "read_fields (VComplex c) = Value c"
| "read_fields v = Value \<lparr>re = NaN, im = NaN\<rparr>"

section \<open>Parsing a number\<close>

text \<open>
  \<open>parseNumber\<close> of src/unnamed/part_000 (and part_001), which the interpreter calls on a
  single token: a token that does not end in \<open>i\<close> is the real part, otherwise what
  precedes the \<open>i\<close> is the imaginary part.
\<close>

definition parseNumber :: "string \<Rightarrow> Complex_obj" where
  "parseNumber num =
     (if num = [] \<or> last num \<noteq> CHR ''i'' then new_Complex (StringToNumber num) (Fin 0)
      else
        let num' = (if num = ''i'' then ''1i'' else num)
        in new_Complex (Fin 0) (StringToNumber (butlast num')))"

text \<open>
  \<open>parseNumber\<close> of src/script.js, the earlier one, which takes a whole sum such as
  \<open>4 - 3i\<close>: commas become points, white space is removed, the text is cut before
  every sign but a leading one, and each piece is added to the real or the imaginary part.
\<close>

definition is_sign :: "char \<Rightarrow> bool" where
  "is_sign c = (c = CHR ''+'' \<or> c = CHR ''-'')"

fun cut_at_signs :: "string \<Rightarrow> string \<Rightarrow> string list" where
  "cut_at_signs piece [] = [piece]"
| "cut_at_signs piece (c # cs) =
     (if is_sign c then piece # cut_at_signs [c] cs else cut_at_signs (piece @ [c]) cs)"

definition split_numbers :: "string \<Rightarrow> string list" where
  "split_numbers num = (case num of [] \<Rightarrow> [[]] | c # cs \<Rightarrow> cut_at_signs [c] cs)"

definition add_piece :: "Complex_obj \<Rightarrow> string \<Rightarrow> Complex_obj" where
  "add_piece out number =
     (if number \<noteq> [] \<and> last number \<in> set ''iIjJ'' then
        (let strNum = butlast number
         in if length strNum \<le> 1 \<and> (strNum = [] \<or> strNum = ''+'' \<or> strNum = ''-'') then
              (if strNum \<noteq> [] \<and> hd strNum = CHR ''-''
               then out\<lparr>im := js_sub (im out) (Fin 1)\<rparr>
               else out\<lparr>im := js_add (im out) (Fin 1)\<rparr>)
            else out\<lparr>im := js_add (im out) (StringToNumber strNum)\<rparr>)
      else out\<lparr>re := js_add (re out) (StringToNumber number)\<rparr>)"

definition parseNumber_script :: "string \<Rightarrow> Complex_obj" where
  "parseNumber_script num0 =
     (let num = filter (\<lambda>c. \<not> is_whitespace c) (map (\<lambda>c. if c = CHR '','' then CHR ''.'' else c) num0)
      in foldl add_piece (new_Complex (Fin 0) (Fin 0)) (split_numbers num))"

section \<open>The variables and the operations (src/unnamed/part_000)\<close>

text \<open>
  An entry of \<open>variableList\<close>. The interpreter reads the name and the value; \<open>min\<close>,
  \<open>max\<close> and \<open>step\<close> belong to the editor and are left out.
\<close>

record variable =
  var_name :: string
  var_type :: string
  var_value :: val

text \<open>\<open>getVariableIndex\<close>: the index of the first entry with the name, or \<open>-1\<close>.\<close>

fun getVariableIndex_from :: "nat \<Rightarrow> variable list \<Rightarrow> string \<Rightarrow> int" where
  "getVariableIndex_from i [] name = - 1"
| "getVariableIndex_from i (v # vs) name =
     (if var_name v = name then int i else getVariableIndex_from (Suc i) vs name)"

definition getVariableIndex :: "variable list \<Rightarrow> string \<Rightarrow> int" where
  "getVariableIndex variableList name = getVariableIndex_from 0 variableList name"

text \<open>The list as the script creates it: \<open>pi\<close> and \<open>e\<close>.\<close>

definition default_variableList :: "variable list" where
  "default_variableList =
     [\<lparr>var_name = ''pi'', var_type = ''constant'', var_value = VComplex (new_Complex (Fin pi) (Fin 0))\<rparr>,
      \<lparr>var_name = ''e'', var_type = ''constant'', var_value = VComplex (new_Complex (Fin (exp 1)) (Fin 0))\<rparr>]"

text \<open>
  The table \<open>operations\<close>. The first seven static methods are those of the class
  \<open>Complex\<close> above; the six trigonometric ones are in complex.js, which is not among
  the sources, and are a parameter of the interpreter.
\<close>

datatype static_method =
    M_add | M_subtract | M_multiply | M_divide | M_raise | M_ln | M_abs
  | M_sin | M_cos | M_tan | M_asin | M_acos | M_atan

record operation =
  args :: nat
  op_function :: static_method

definition operations :: "string \<Rightarrow> operation option" where
  "operations = map_of
     [(''+'', \<lparr>args = 2, op_function = M_add\<rparr>),
      (''-'', \<lparr>args = 2, op_function = M_subtract\<rparr>),
      (''*'', \<lparr>args = 2, op_function = M_multiply\<rparr>),
      (''/'', \<lparr>args = 2, op_function = M_divide\<rparr>),
      (''^'', \<lparr>args = 2, op_function = M_raise\<rparr>),
      (''ln'', \<lparr>args = 1, op_function = M_ln\<rparr>),
      (''abs'', \<lparr>args = 1, op_function = M_abs\<rparr>),
      (''sin'', \<lparr>args = 1, op_function = M_sin\<rparr>),
      (''cos'', \<lparr>args = 1, op_function = M_cos\<rparr>),
      (''tan'', \<lparr>args = 1, op_function = M_tan\<rparr>),
      (''asin'', \<lparr>args = 1, op_function = M_asin\<rparr>),
      (''acos'', \<lparr>args = 1, op_function = M_acos\<rparr>),
      (''atan'', \<lparr>args = 1, op_function = M_atan\<rparr>)]"

definition in_Complex_class :: "static_method \<Rightarrow> bool" where
  "in_Complex_class m = (m \<in> {M_add, M_subtract, M_multiply, M_divide, M_raise, M_ln, M_abs})"

text \<open>
  For closed examples the absent methods are a function that the model does not follow;
  no example below calls it.
\<close>

definition absent_complex_js :: "static_method \<Rightarrow> val list \<Rightarrow> val outcome" where
  "absent_complex_js m values = Outside_model"

text \<open>
  \<open>f.apply(this, values)\<close>: the parameters are bound to the values in order, and a
  parameter without a value is \<open>undefined\<close>.
\<close>

definition argument :: "val list \<Rightarrow> nat \<Rightarrow> val" where
  "argument values i = (if i < length values then values ! i else VUndefined)"

definition binary :: "(Complex_obj \<Rightarrow> Complex_obj \<Rightarrow> Complex_obj) \<Rightarrow> val list \<Rightarrow> val outcome" where
  "binary f values =
     bind_outcome (coerce (argument values 0)) (\<lambda>num1.
     bind_outcome (coerce (argument values 1)) (\<lambda>num2.
     Value (VComplex (f num1 num2))))"

definition apply_method ::
  "(static_method \<Rightarrow> val list \<Rightarrow> val outcome) \<Rightarrow> static_method \<Rightarrow> val list \<Rightarrow> val outcome" where
  "apply_method complex_js m values =
     (case m of
        M_add \<Rightarrow> binary Complex_add values
      | M_subtract \<Rightarrow> binary Complex_subtract values
      | M_multiply \<Rightarrow> binary Complex_multiply values
      | M_divide \<Rightarrow> binary Complex_divide values
      | M_raise \<Rightarrow> binary Complex_raise values
      | M_ln \<Rightarrow> bind_outcome (coerce (argument values 0)) (\<lambda>num1. Value (VComplex (Complex_ln num1)))
      | M_abs \<Rightarrow> bind_outcome (read_fields (argument values 0)) (\<lambda>num. Value (VComplex (Complex_abs num)))
      | _ \<Rightarrow> complex_js m values)"

section \<open>The interpreter \<open>userFunction\<close> (src/unnamed/part_000)\<close>

text \<open>
  \<open>calculatedVars\<close> is an object created as \<open>{}\<close>: its own properties are the names
  assigned so far, and it inherits the properties of \<open>Object.prototype\<close>. The operator
  \<open>in\<close> sees both; \<open>hasOwnProperty\<close> (used on \<open>operations\<close>) only the own ones.
\<close>

record state =
  functionStack :: "val list"
  calculatedVars :: "string \<rightharpoonup> val"

definition Object_prototype :: "string list" where
  "Object_prototype =
     [''constructor'', ''__defineGetter__'', ''__defineSetter__'', ''hasOwnProperty'',
      ''__lookupGetter__'', ''__lookupSetter__'', ''isPrototypeOf'', ''propertyIsEnumerable'',
      ''toString'', ''valueOf'', ''__proto__'', ''toLocaleString'']"

definition has_property :: "(string \<rightharpoonup> val) \<Rightarrow> string \<Rightarrow> bool" where
  "has_property obj name = (obj name \<noteq> None \<or> name \<in> set Object_prototype)"

definition get_property :: "(string \<rightharpoonup> val) \<Rightarrow> string \<Rightarrow> val" where
  "get_property obj name =
     (case obj name of
        Some v \<Rightarrow> v
      | None \<Rightarrow> if name \<in> set Object_prototype then VInherited name else VUndefined)"

text \<open>
  \<open>obj[name] = v\<close> creates or overwrites an own property, except for the name
  \<open>__proto__\<close>, which is an accessor: it ignores a value that is not an object, and
  makes an object the new prototype. From then on \<open>in\<close> would see the properties of that
  object, some of them defined in complex.js; the model stops there.
\<close>

fun is_object :: "val \<Rightarrow> bool" where
  "is_object (VComplex _) = True"
| "is_object (VInherited _) = True"
| "is_object _ = False"

definition set_property :: "(string \<rightharpoonup> val) \<Rightarrow> string \<Rightarrow> val \<Rightarrow> (string \<rightharpoonup> val) outcome" where
  "set_property obj name v =
     (if name = ''__proto__'' then (if is_object v then Outside_model else Value obj)
      else Value (obj(name \<mapsto> v)))"

text \<open>
  \<open>a.pop()\<close> gives \<open>undefined\<close> on an empty array and leaves it empty;
  \<open>a.slice(start)\<close> counts a negative \<open>start\<close> from the end and clamps it;
  \<open>a.length -= k\<close> throws a \<open>RangeError\<close> when the new length is negative.
\<close>

definition pop :: "val list \<Rightarrow> val \<times> val list" where
  "pop a = (if a = [] then (VUndefined, []) else (last a, butlast a))"

definition slice :: "'a list \<Rightarrow> int \<Rightarrow> 'a list" where
  "slice a start =
     (let len = int (length a);
          k = (if start < 0 then max (len + start) 0 else min start len)
      in drop (nat k) a)"

definition shorten :: "'a list \<Rightarrow> nat \<Rightarrow> 'a list outcome" where
  "shorten a k = (if length a < k then Throw RangeError else Value (take (length a - k) a))"

text \<open>The body of the loop, for one element of \<open>functionList\<close>.\<close>

definition exec_line ::
  "(static_method \<Rightarrow> val list \<Rightarrow> val outcome) \<Rightarrow> variable list \<Rightarrow> val \<Rightarrow> string \<Rightarrow> state
     \<Rightarrow> state outcome" where
  "exec_line complex_js variableList num raw st =
     (let line = trim raw
      in if line = ''x'' then Value (st\<lparr>functionStack := functionStack st @ [num]\<rparr>)
         else if line \<noteq> [] \<and> hd line \<noteq> CHR ''#'' then
           (let variableIndex = getVariableIndex variableList line;
                isCalculatedVariable = has_property (calculatedVars st) line
            in if hd line = CHR ''='' then
                 (let (v, rest) = pop (functionStack st)
                  in bind_outcome (set_property (calculatedVars st) (trim (tl line)) v) (\<lambda>vars.
                     Value \<lparr>functionStack = rest, calculatedVars = vars\<rparr>))
               else if operations line \<noteq> None then
                 (let operation = the (operations line);
                      values = slice (functionStack st) (int (length (functionStack st)) - int (args operation))
                  in bind_outcome (apply_method complex_js (op_function operation) values) (\<lambda>v.
                     bind_outcome (shorten (functionStack st) (args operation)) (\<lambda>rest.
                     Value (st\<lparr>functionStack := rest @ [v]\<rparr>))))
               else if variableIndex \<noteq> - 1 then
                 Value (st\<lparr>functionStack :=
                          functionStack st @ [var_value (variableList ! nat variableIndex)]\<rparr>)
               else if isCalculatedVariable then
                 Value (st\<lparr>functionStack :=
                          functionStack st @ [get_property (calculatedVars st) (trim line)]\<rparr>)
               else
                 Value (st\<lparr>functionStack := functionStack st @ [VComplex (parseNumber line)]\<rparr>))
         else Value st)"

text \<open>
  The lines that reach the last three branches of the body (variable, calculated variable,
  number): not \<open>x\<close>, not empty, not a comment, not an assignment, not an operation.
\<close>

definition reaches_lookup :: "string \<Rightarrow> bool" where
  "reaches_lookup line =
     (line \<noteq> ''x'' \<and> line \<noteq> [] \<and> hd line \<noteq> CHR ''#'' \<and> hd line \<noteq> CHR ''='' \<and> operations line = None)"

fun exec_lines ::
  "(static_method \<Rightarrow> val list \<Rightarrow> val outcome) \<Rightarrow> variable list \<Rightarrow> val \<Rightarrow> string list \<Rightarrow> state
     \<Rightarrow> state outcome" where
  "exec_lines complex_js variableList num [] st = Value st"
| "exec_lines complex_js variableList num (raw # rest) st =
     bind_outcome (exec_line complex_js variableList num raw st)
       (exec_lines complex_js variableList num rest)"

text \<open>
  The loop over \<open>functionList\<close>, from an empty stack and no calculated variable; the
  result is the stack.
\<close>

definition initial :: state where
  "initial = \<lparr>functionStack = [], calculatedVars = Map.empty\<rparr>"

definition evaluate ::
  "(static_method \<Rightarrow> val list \<Rightarrow> val outcome) \<Rightarrow> variable list \<Rightarrow> string list \<Rightarrow> val
     \<Rightarrow> val list outcome" where
  "evaluate complex_js variableList functionList num =
     bind_outcome (exec_lines complex_js variableList num functionList initial) (\<lambda>st.
     Value (functionStack st))"

text \<open>
  The first part of \<open>userFunction\<close> makes \<open>functionList\<close> from the text: the lines
  that are not blank, a line that starts with \<open>=\<close> or \<open>#\<close> as it is, any other line
  replaced by the tokens of \<open>ExpressionParser.parseExpression\<close>. That parser is in
  expression-parser.js, which is not among the sources, and is a parameter.
\<close>

fun split_lines_from :: "string \<Rightarrow> string \<Rightarrow> string list" where
  "split_lines_from piece [] = [piece]"
| "split_lines_from piece (c # cs) =
     (if c = CHR 0x0A then piece # split_lines_from [] cs else split_lines_from (piece @ [c]) cs)"

definition split_lines :: "string \<Rightarrow> string list" where
  "split_lines text = split_lines_from [] text"

fun make_functionList :: "(string \<Rightarrow> string list outcome) \<Rightarrow> string list \<Rightarrow> string list outcome" where
  "make_functionList parseExpression [] = Value []"
| "make_functionList parseExpression (line # lines) =
     bind_outcome
       (if hd line \<in> set ''=#'' then Value [line] else parseExpression line) (\<lambda>tokens.
     bind_outcome (make_functionList parseExpression lines) (\<lambda>more.
     Value (tokens @ more)))"

definition userFunction ::
  "(string \<Rightarrow> string list outcome) \<Rightarrow> (static_method \<Rightarrow> val list \<Rightarrow> val outcome) \<Rightarrow> variable list
     \<Rightarrow> string \<Rightarrow> val \<Rightarrow> val list outcome" where
  "userFunction parseExpression complex_js variableList functionText num =
     bind_outcome
       (make_functionList parseExpression (filter (\<lambda>line. trim line \<noteq> []) (split_lines functionText)))
       (\<lambda>functionList. evaluate complex_js variableList functionList num)"

section \<open>The batch of evaluations \<open>updateFunctionValues\<close> (src/unnamed/part_000)\<close>

text \<open>
  The three arguments are the texts of the input elements \<open>minX\<close>, \<open>maxX\<close> and
  \<open>resolution\<close>. The loop \<open>for (let i = 0; i <= (end - begin) / step; i++)\<close> has no
  bound of its own, so the model counts its iterations down from a supply: \<open>None\<close> says
  that the supply ran out before the loop ended.
\<close>

fun sample_loop ::
  "nat \<Rightarrow> (val \<Rightarrow> val list outcome) \<Rightarrow> jsnum \<Rightarrow> jsnum \<Rightarrow> jsnum \<Rightarrow> nat \<Rightarrow> val list list
     \<Rightarrow> val list list outcome option" where
  "sample_loop 0 func begin end step i resultList = None"
| "sample_loop (Suc fuel) func begin end step i resultList =
     (if js_le (Fin (real i)) (js_div (js_sub end begin) step) then
        (let x = js_add (js_mul (Fin (real i)) step) begin
         in case func (VComplex (new_Complex x (Fin 0))) of
              Value result \<Rightarrow> sample_loop fuel func begin end step (Suc i) (resultList @ [result])
            | Throw e \<Rightarrow> Some (Throw e)
            | Outside_model \<Rightarrow> Some Outside_model)
      else Some (Value resultList))"

definition updateFunctionValues ::
  "nat \<Rightarrow> (val \<Rightarrow> val list outcome) \<Rightarrow> string \<Rightarrow> string \<Rightarrow> string \<Rightarrow> val list list outcome option" where
  "updateFunctionValues fuel func minX maxX resolution =
     (let begin = StringToNumber minX;
          end = StringToNumber maxX;
          step = Math_abs (StringToNumber resolution)
      in sample_loop fuel func begin end step 0 [])"

text \<open>
  The resolution that \<open>updateCanvas\<close> hands to \<open>drawFunction\<close>: here, and only
  here, a zero becomes \<open>0.05\<close>.
\<close>

definition updateCanvas_resolution :: "string \<Rightarrow> jsnum" where
  "updateCanvas_resolution resolution =
     (let resolution' = Math_abs (StringToNumber resolution)
      in if js_strict_eq resolution' (Fin 0) then Fin (5 / 100) else resolution')"


section \<open>Properties of the numbers\<close>

lemma underflow_threshold_pos: "0 < underflow_threshold"
  by (simp add: underflow_threshold_def)

lemma underflow_threshold_small: "underflow_threshold < 1 / 2 ^ 20"
proof -
  have "(2::real) ^ 20 < 2 ^ 1075" by (rule power_strict_increasing) simp_all
  thus ?thesis by (simp add: underflow_threshold_def field_simps)
qed

lemma overflow_threshold_large: "2 ^ 20 < overflow_threshold"
proof -
  have "(2::real) ^ 1024 = 2 ^ 970 * 2 ^ 54" by (simp add: power_add[symmetric])
  hence "overflow_threshold = 2 ^ 970 * (2 ^ 54 - 1)"
    by (simp add: overflow_threshold_def algebra_simps)
  moreover have "(2::real) ^ 20 < 2 ^ 970" by (rule power_strict_increasing) simp_all
  moreover have "(1::real) \<le> 2 ^ 54 - 1" by simp
  ultimately show ?thesis
    by (metis less_le_trans mult.right_neutral mult_left_mono zero_le_numeral zero_le_power)
qed

lemma thresholds_apart: "underflow_threshold < overflow_threshold"
  using underflow_threshold_small overflow_threshold_large by simp

lemma js_result_zero [simp]: "js_result 0 = Fin 0"
  using underflow_threshold_pos overflow_threshold_large
  by (simp add: js_result_def)

lemma js_result_moderate:
  assumes "1 / 2 ^ 20 \<le> \<bar>x\<bar>" and "\<bar>x\<bar> \<le> 2 ^ 20"
  shows "js_result x = Fin x"
  using assms underflow_threshold_small overflow_threshold_large
  by (simp add: js_result_def)

lemma js_result_not_NaN [simp]: "js_result x \<noteq> NaN"
  by (simp add: js_result_def signed_inf_def)

lemma js_result_nonneg:
  "0 \<le> t \<Longrightarrow> js_result t =
     (if overflow_threshold \<le> t then PInf else if t \<le> underflow_threshold then Fin 0 else Fin t)"
  using overflow_threshold_large by (auto simp: js_result_def signed_inf_def)



section \<open>Properties of the class \<open>Complex\<close>\<close>

subsection \<open>The absolute value\<close>

lemma Math_pow_two: "Math_pow (Fin x) (Fin 2) = js_result (x\<^sup>2)"
proof -
  have i: "is_integer 2" by (simp add: is_integer_def)
  have o: "\<not> is_odd_integer 2" by (simp add: is_odd_integer_def is_integer_def)
  show ?thesis
  proof (cases "x = 0")
    case True
    thus ?thesis by simp
  next
    case False
    thus ?thesis using i o by (cases "0 < x") (simp_all add: powr_numeral)
  qed
qed

lemma Math_pow_two_special:
  "Math_pow PInf (Fin 2) = PInf" "Math_pow NInf (Fin 2) = PInf" "Math_pow NaN (Fin 2) = NaN"
  by (simp_all add: is_odd_integer_def is_integer_def)

lemma js_result_like: "0 \<le> t \<Longrightarrow> magnitude_like (js_result t)"
  by (auto simp: js_result_nonneg magnitude_like_def)

lemma js_result_zero_iff: "0 \<le> t \<Longrightarrow> js_result t = Fin 0 \<longleftrightarrow> t \<le> underflow_threshold"
  using underflow_threshold_pos thresholds_apart by (auto simp: js_result_nonneg)

lemma square_like: "magnitude_like (Math_pow v (Fin 2))"
proof (cases v)
  case (Fin x)
  thus ?thesis by (simp add: Math_pow_two js_result_like del: Math_pow.simps)
qed (simp_all add: Math_pow_two_special magnitude_like_def del: Math_pow.simps)

lemma square_zero_iff: "Math_pow v (Fin 2) = Fin 0 \<longleftrightarrow> square_underflows v"
proof (cases v)
  case (Fin x)
  thus ?thesis by (simp add: Math_pow_two js_result_zero_iff del: Math_pow.simps)
qed (simp_all add: Math_pow_two_special del: Math_pow.simps)

lemma sum_above:
  assumes "underflow_threshold < v" and "0 \<le> w"
  shows "magnitude_like (js_result (v + w)) \<and> js_result (v + w) \<noteq> Fin 0"
proof -
  from assms underflow_threshold_pos have "0 \<le> v + w" "\<not> v + w \<le> underflow_threshold" by linarith+
  thus ?thesis by (simp add: js_result_like js_result_zero_iff)
qed

lemma sum_like:
  assumes "magnitude_like p" and "magnitude_like q"
  shows "magnitude_like (js_add p q) \<and> (js_add p q = Fin 0 \<longleftrightarrow> p = Fin 0 \<and> q = Fin 0)"
proof -
  consider "p = NaN" | "p = PInf" | "p = Fin 0" | v where "p = Fin v" "underflow_threshold < v"
    using assms(1) by (auto simp: magnitude_like_def)
  thus ?thesis
  proof cases
    case 1
    thus ?thesis by (simp add: magnitude_like_def)
  next
    case 2
    thus ?thesis using assms(2) by (auto simp: magnitude_like_def)
  next
    case 3
    consider "q = NaN" | "q = PInf" | "q = Fin 0" | w where "q = Fin w" "underflow_threshold < w"
      using assms(2) by (auto simp: magnitude_like_def)
    thus ?thesis
    proof cases
      case (4 w)
      with 3 sum_above[of w 0] underflow_threshold_pos show ?thesis by auto
    qed (simp_all add: 3 magnitude_like_def)
  next
    case (4 v)
    consider "q = NaN" | "q = PInf" | w where "q = Fin w" "0 \<le> w"
      using assms(2) underflow_threshold_pos by (auto simp: magnitude_like_def)
    thus ?thesis
    proof cases
      case (3 w)
      with 4 sum_above[of v w] underflow_threshold_pos show ?thesis by auto
    qed (simp_all add: 4 magnitude_like_def)
  qed
qed

lemma root_above:
  assumes "underflow_threshold < v"
  shows "underflow_threshold < v powr (1/2)"
proof -
  from assms underflow_threshold_pos have v: "0 < v" by linarith
  have r: "v powr (1/2) = sqrt v" using v by (simp add: powr_half_sqrt)
  show ?thesis
  proof (cases "v \<le> 1")
    case True
    with v have "sqrt v * sqrt v \<le> sqrt v * 1" by (intro mult_left_mono) simp_all
    with v have "v \<le> sqrt v" by simp
    with assms r show ?thesis by linarith
  next
    case False
    hence "1 < sqrt v" by simp
    moreover have "underflow_threshold < 1" using underflow_threshold_small by simp
    ultimately show ?thesis using r by linarith
  qed
qed

lemma root_zero_iff:
  assumes "magnitude_like s"
  shows "Math_pow s (Fin (1/2)) = Fin 0 \<longleftrightarrow> s = Fin 0"
proof -
  consider "s = NaN" | "s = PInf" | "s = Fin 0" | v where "s = Fin v" "underflow_threshold < v"
    using assms by (auto simp: magnitude_like_def)
  thus ?thesis
  proof cases
    case (4 v)
    from 4(2) underflow_threshold_pos have v: "0 < v" by linarith
    from root_above[OF 4(2)] underflow_threshold_pos
    have "js_result (v powr (1/2)) \<noteq> Fin 0" by (simp add: js_result_zero_iff)
    with 4 v show ?thesis by simp
  qed simp_all
qed

text \<open>The computed absolute value is zero exactly when both squares underflow.\<close>

lemma toPolar_r_zero_iff:
  "r (Complex_toPolar z) = Fin 0 \<longleftrightarrow> square_underflows (re z) \<and> square_underflows (im z)"
proof -
  let ?p = "Math_pow (re z) (Fin 2)" and ?q = "Math_pow (im z) (Fin 2)"
  from sum_like[OF square_like square_like]
  have "magnitude_like (js_add ?p ?q)" and "js_add ?p ?q = Fin 0 \<longleftrightarrow> ?p = Fin 0 \<and> ?q = Fin 0"
    by blast+
  with root_zero_iff[of "js_add ?p ?q"] show ?thesis
    by (simp add: Complex_toPolar_def square_zero_iff del: Math_pow.simps)
qed

lemma Complex_abs_zero_iff:
  "js_strict_eq (re (Complex_abs z)) (Fin 0) \<longleftrightarrow> square_underflows (re z) \<and> square_underflows (im z)"
  using toPolar_r_zero_iff[of z]
  by (auto simp: js_strict_eq_def Complex_abs_def new_Complex_def)

lemma abs_zero_r: "js_strict_eq (re (Complex_abs z)) (Fin 0) \<longleftrightarrow> r (Complex_toPolar z) = Fin 0"
  by (auto simp: js_strict_eq_def Complex_abs_def new_Complex_def)

lemma abs_origin: "js_strict_eq (re (Complex_abs (new_Complex (Fin 0) (Fin 0)))) (Fin 0)"
  using underflow_threshold_pos by (simp add: Complex_abs_zero_iff new_Complex_def)

lemma abs_minus_one: "re (Complex_abs (new_Complex (Fin (- 1)) (Fin 0))) = Fin 1"
  by (simp add: Complex_abs_def Complex_toPolar_def new_Complex_def is_odd_integer_def
      is_integer_def js_result_moderate)

subsection \<open>The polar path at a zero base\<close>

lemma times_NInf_not_finite: "\<not> is_finite (js_mul v NInf)"
  by (cases v) (simp_all add: signed_inf_def)

lemma sum_not_finite: "\<not> is_finite a \<Longrightarrow> \<not> is_finite (js_add a c)"
  by (cases a; cases c) simp_all

lemma cos_sin_not_finite: "\<not> is_finite t \<Longrightarrow> Math_cos t = NaN \<and> Math_sin t = NaN"
  by (cases t) simp_all

lemma times_NaN: "js_mul x NaN = NaN"
  by (cases x) simp_all

lemma raise_polar_zero_base:
  assumes "r (Complex_toPolar b) = Fin 0"
    and "\<not> js_strict_neq (re (Complex_abs e)) (Fin 0)"
  shows "Complex_raise b e = new_Complex NaN NaN"
proof -
  let ?th = "js_add (js_mul (im e) NInf) (js_mul (re e) (theta (Complex_toPolar b)))"
  have "\<not> is_finite ?th" by (intro sum_not_finite times_NInf_not_finite)
  hence "Math_cos ?th = NaN" "Math_sin ?th = NaN" using cos_sin_not_finite by blast+
  thus ?thesis
    using assms by (simp add: Complex_raise_def Complex_fromPolar_def Let_def times_NaN)
qed

subsection \<open>A zero base\<close>




text \<open>
  Claim C10. For every base \<open>b\<close> with \<open>|b| = 0\<close> and every exponent \<open>e\<close> with
  \<open>|e| = 0\<close>, the guard of \<open>raise\<close> does not apply, the polar path takes
  \<open>Math.log(0) = -Infinity\<close>, and \<open>raise(b, e)\<close> is \<open>(NaN, NaN)\<close>.
\<close>

theorem raise_zero_zero:
  assumes "js_strict_eq (re (Complex_abs b)) (Fin 0)"
    and "js_strict_eq (re (Complex_abs e)) (Fin 0)"
  shows "Math_log (r (Complex_toPolar b)) = NInf \<and> Complex_raise b e = new_Complex NaN NaN"
proof -
  from assms(1) have b: "r (Complex_toPolar b) = Fin 0" by (simp only: abs_zero_r)
  have "\<not> js_strict_neq (re (Complex_abs e)) (Fin 0)"
    using assms(2) by (simp add: js_strict_neq_def)
  with b have "Complex_raise b e = new_Complex NaN NaN" by (rule raise_polar_zero_base)
  with b show ?thesis by simp
qed

theorem raise_zero_zero_witness:
  "js_strict_eq (re (Complex_abs (new_Complex (Fin 0) (Fin 0)))) (Fin 0)
   \<and> Complex_raise (new_Complex (Fin 0) (Fin 0)) (new_Complex (Fin 0) (Fin 0)) = new_Complex NaN NaN"
  using abs_origin raise_zero_zero[OF abs_origin abs_origin] by simp

subsection \<open>Division by zero\<close>

lemma multiply_origin:
  "Complex_multiply a (new_Complex (Fin 0) (Fin 0)) =
     (if is_finite (re a) \<and> is_finite (im a) then new_Complex (Fin 0) (Fin 0)
      else new_Complex NaN NaN)"
  by (cases "re a"; cases "im a") (simp_all add: Complex_multiply_def new_Complex_def js_sub_def)

text \<open>
  Claim C1 says that \<open>divide(a, b)\<close> is \<open>(NaN, NaN)\<close> when \<open>b\<close> is zero. It is not:
  \<open>divide\<close> raises \<open>b\<close> to \<open>-1\<close>, the exponent \<open>-1\<close> has the absolute value \<open>1\<close>,
  so the guard of \<open>raise\<close> returns \<open>0\<close>, and \<open>1 / 0\<close> is \<open>1 * 0 = (0, 0)\<close>.
\<close>

theorem divide_by_zero_counterexample:
  "js_strict_eq (re (Complex_abs (new_Complex (Fin 0) (Fin 0)))) (Fin 0)
   \<and> Complex_divide (new_Complex (Fin 1) (Fin 0)) (new_Complex (Fin 0) (Fin 0))
       = new_Complex (Fin 0) (Fin 0)
   \<and> Complex_divide (new_Complex (Fin 1) (Fin 0)) (new_Complex (Fin 0) (Fin 0))
       \<noteq> new_Complex NaN NaN"
proof -
  have "Complex_raise (new_Complex (Fin 0) (Fin 0)) (new_Complex (Fin (- 1)) (Fin 0))
          = new_Complex (Fin 0) (Fin 0)"
    using abs_origin by (simp add: Complex_raise_def abs_minus_one js_strict_neq_def js_strict_eq_def)
  hence "Complex_divide (new_Complex (Fin 1) (Fin 0)) (new_Complex (Fin 0) (Fin 0))
          = new_Complex (Fin 0) (Fin 0)"
    by (simp add: Complex_divide_def multiply_origin) (simp add: new_Complex_def)
  thus ?thesis using abs_origin by (simp add: new_Complex_def)
qed

text \<open>
  Claim C1, amended. For every Complex \<open>a\<close> and every \<open>b\<close> with \<open>|b| = 0\<close>,
  \<open>divide(a, b)\<close> equals \<open>multiply(a, raise(b, -1))\<close>, \<open>raise(b, -1)\<close> is exactly
  \<open>(0, 0)\<close>, and so the quotient is \<open>(0, 0)\<close> when both parts of \<open>a\<close> are finite and
  \<open>(NaN, NaN)\<close> only when a part of \<open>a\<close> is infinite or \<open>NaN\<close>.
\<close>

theorem divide_by_zero:
  assumes "js_strict_eq (re (Complex_abs b)) (Fin 0)"
  shows "Complex_divide a b = Complex_multiply a (Complex_raise b (new_Complex (Fin (- 1)) (Fin 0)))
         \<and> Complex_raise b (new_Complex (Fin (- 1)) (Fin 0)) = new_Complex (Fin 0) (Fin 0)
         \<and> Complex_divide a b =
             (if is_finite (re a) \<and> is_finite (im a) then new_Complex (Fin 0) (Fin 0)
              else new_Complex NaN NaN)"
proof -
  have "js_strict_neq (re (Complex_abs (new_Complex (Fin (- 1)) (Fin 0)))) (Fin 0)"
    by (simp add: abs_minus_one js_strict_neq_def js_strict_eq_def)
  with assms have "Complex_raise b (new_Complex (Fin (- 1)) (Fin 0)) = new_Complex (Fin 0) (Fin 0)"
    by (simp add: Complex_raise_def)
  thus ?thesis by (simp add: Complex_divide_def multiply_origin)
qed

theorem divide_by_zero_witness:
  "js_strict_eq (re (Complex_abs (new_Complex (Fin 0) (Fin 0)))) (Fin 0)
   \<and> Complex_divide (new_Complex (Fin 3) (Fin 4)) (new_Complex (Fin 0) (Fin 0))
       = new_Complex (Fin 0) (Fin 0)
   \<and> Complex_divide (new_Complex PInf (Fin 4)) (new_Complex (Fin 0) (Fin 0))
       = new_Complex NaN NaN"
  using abs_origin divide_by_zero[OF abs_origin, of "new_Complex (Fin 3) (Fin 4)"]
    divide_by_zero[OF abs_origin, of "new_Complex PInf (Fin 4)"]
  by (simp add: new_Complex_def Complex_multiply_def js_sub_def)

section \<open>Evaluating concrete inputs\<close>

lemmas eval_string = trim_def is_whitespace_def

lemmas eval_number = StringToNumber_def unsigned_decimal_def is_digit_def digits_value_def
  digit_value_def scale10_def all_digits_def radix_of_prefix_def js_result_moderate

lemmas eval_parse = parseNumber_def parseNumber_script_def split_numbers_def add_piece_def
  is_sign_def new_Complex_def js_sub_def

lemmas eval_step = exec_line_def bind_outcome_def getVariableIndex_def operations_def
  has_property_def get_property_def set_property_def Object_prototype_def pop_def slice_def
  shorten_def apply_method_def binary_def argument_def

section \<open>Properties of \<open>parseNumber\<close>\<close>

text \<open>
  Claim C7. \<open>parseNumber\<close>, the parser of src/script.js that takes a whole sum with
  an imaginary suffix and a bare sign, maps \<open>3i\<close> to \<open>(0, 3)\<close>, \<open>i\<close> to \<open>(0, 1)\<close>,
  \<open>-i\<close> to \<open>(0, -1)\<close> and \<open>4-3i\<close> to \<open>(4, -3)\<close>.
\<close>

theorem parseNumber_literals:
  "parseNumber_script ''3i'' = new_Complex (Fin 0) (Fin 3)
   \<and> parseNumber_script ''i'' = new_Complex (Fin 0) (Fin 1)
   \<and> parseNumber_script ''-i'' = new_Complex (Fin 0) (Fin (- 1))
   \<and> parseNumber_script ''4-3i'' = new_Complex (Fin 4) (Fin (- 3))"
  by (simp add: eval_parse eval_number eval_string)

section \<open>Properties of the interpreter\<close>

subsection \<open>The variable list and the table of operations\<close>

lemma getVariableIndex_from_range:
  "getVariableIndex_from i vs name = - 1 \<or>
   (int i \<le> getVariableIndex_from i vs name \<and> getVariableIndex_from i vs name < int (i + length vs))"
  by (induction vs arbitrary: i) (auto, force+)

lemma getVariableIndex_from_find:
  "getVariableIndex_from i vs name \<noteq> - 1 \<Longrightarrow>
   find (\<lambda>v. var_name v = name) vs = Some (vs ! (nat (getVariableIndex_from i vs name) - i))"
proof (induction vs arbitrary: i)
  case Nil
  thus ?case by simp
next
  case (Cons v vs)
  show ?case
  proof (cases "var_name v = name")
    case True
    thus ?thesis by simp
  next
    case False
    with Cons.prems have ne: "getVariableIndex_from (Suc i) vs name \<noteq> - 1" by simp
    from getVariableIndex_from_range[of "Suc i" vs name] ne
    have "int (Suc i) \<le> getVariableIndex_from (Suc i) vs name" by blast
    hence "nat (getVariableIndex_from (Suc i) vs name) - i
             = Suc (nat (getVariableIndex_from (Suc i) vs name) - Suc i)" by linarith
    with False Cons.IH[OF ne] show ?thesis by simp
  qed
qed

text \<open>An index other than \<open>-1\<close> is that of the first entry with the name.\<close>

lemma getVariableIndex_find:
  "getVariableIndex variableList name \<noteq> - 1 \<Longrightarrow>
   find (\<lambda>v. var_name v = name) variableList
     = Some (variableList ! nat (getVariableIndex variableList name))"
  using getVariableIndex_from_find[of 0 variableList name] by (simp add: getVariableIndex_def)

lemma getVariableIndex_none:
  "getVariableIndex variableList name = - 1 \<longleftrightarrow> name \<notin> var_name ` set variableList"
proof -
  have "getVariableIndex_from i vs name = - 1 \<longleftrightarrow> name \<notin> var_name ` set vs" for i vs
    by (induction vs arbitrary: i) auto
  thus ?thesis by (simp add: getVariableIndex_def)
qed

lemma operations_names:
  "operations line = Some operation \<Longrightarrow>
   line \<noteq> ''x'' \<and> line \<noteq> [] \<and> hd line \<noteq> CHR ''#'' \<and> hd line \<noteq> CHR ''=''"
  by (auto simp: operations_def split: if_splits)

lemma operations_args:
  "operations line = Some operation \<Longrightarrow>
   (args operation = 2 \<and> op_function operation \<in> {M_add, M_subtract, M_multiply, M_divide, M_raise})
   \<or> (args operation = 1 \<and> op_function operation \<notin> {M_add, M_subtract, M_multiply, M_divide, M_raise})"
  by (auto simp: operations_def split: if_splits)

subsection \<open>Names\<close>

text \<open>
  Claim C2 says that a name bound both by an earlier assignment and in the variable list
  resolves to the assigned value. It does not: with a variable \<open>a = 7\<close>, the program
  \<open>x\<close>, \<open>=a\<close>, \<open>a\<close> at \<open>x = 5\<close> binds \<open>a\<close> to \<open>5\<close> and then pushes \<open>7\<close>.
\<close>

theorem registry_shadows_calculated_counterexample:
  "exec_lines absent_complex_js
      [\<lparr>var_name = ''a'', var_type = ''constant'', var_value = VComplex (new_Complex (Fin 7) (Fin 0))\<rparr>]
      (VComplex (new_Complex (Fin 5) (Fin 0))) [''x'', ''=a''] initial
     = Value \<lparr>functionStack = [],
              calculatedVars = [''a'' \<mapsto> VComplex (new_Complex (Fin 5) (Fin 0))]\<rparr>
   \<and> evaluate absent_complex_js
      [\<lparr>var_name = ''a'', var_type = ''constant'', var_value = VComplex (new_Complex (Fin 7) (Fin 0))\<rparr>]
      [''x'', ''=a'', ''a''] (VComplex (new_Complex (Fin 5) (Fin 0)))
     = Value [VComplex (new_Complex (Fin 7) (Fin 0))]
   \<and> evaluate absent_complex_js
      [\<lparr>var_name = ''a'', var_type = ''constant'', var_value = VComplex (new_Complex (Fin 7) (Fin 0))\<rparr>]
      [''x'', ''=a'', ''a''] (VComplex (new_Complex (Fin 5) (Fin 0)))
     \<noteq> Value [VComplex (new_Complex (Fin 5) (Fin 0))]"
  by (simp add: evaluate_def initial_def eval_step eval_string new_Complex_def)

text \<open>
  Claim C2, amended. For every state and every line that is a name (not \<open>x\<close>, a comment,
  an assignment or an operation) and that the variable list holds, the interpreter pushes
  the value of the first variable with that name, whatever the calculated variables hold:
  the variable list is consulted before the calculated variables.
\<close>

theorem registry_before_calculated:
  assumes "reaches_lookup (trim raw)"
    and "getVariableIndex variableList (trim raw) \<noteq> - 1"
  shows "exec_line complex_js variableList num raw st
           = Value (st\<lparr>functionStack := functionStack st
                       @ [var_value (variableList ! nat (getVariableIndex variableList (trim raw)))]\<rparr>)
         \<and> find (\<lambda>v. var_name v = trim raw) variableList
           = Some (variableList ! nat (getVariableIndex variableList (trim raw)))"
  using assms getVariableIndex_find[OF assms(2)]
  by (simp add: exec_line_def reaches_lookup_def Let_def)

theorem registry_before_calculated_witness:
  "reaches_lookup (trim ''a'')
   \<and> getVariableIndex
        [\<lparr>var_name = ''a'', var_type = ''constant'', var_value = VComplex (new_Complex (Fin 7) (Fin 0))\<rparr>]
        (trim ''a'') \<noteq> - 1
   \<and> exec_line absent_complex_js
        [\<lparr>var_name = ''a'', var_type = ''constant'', var_value = VComplex (new_Complex (Fin 7) (Fin 0))\<rparr>]
        (VComplex (new_Complex (Fin 5) (Fin 0))) ''a''
        \<lparr>functionStack = [], calculatedVars = [''a'' \<mapsto> VComplex (new_Complex (Fin 5) (Fin 0))]\<rparr>
       = Value \<lparr>functionStack = [VComplex (new_Complex (Fin 7) (Fin 0))],
                calculatedVars = [''a'' \<mapsto> VComplex (new_Complex (Fin 5) (Fin 0))]\<rparr>"
proof -
  let ?vl = "[\<lparr>var_name = ''a'', var_type = ''constant'',
               var_value = VComplex (new_Complex (Fin 7) (Fin 0))\<rparr>]"
  have l: "reaches_lookup (trim ''a'')"
    by (simp add: reaches_lookup_def operations_def eval_string)
  have g: "getVariableIndex ?vl (trim ''a'') \<noteq> - 1"
    by (simp add: getVariableIndex_def eval_string)
  show ?thesis
    using l g registry_before_calculated[OF l g, of absent_complex_js
        "VComplex (new_Complex (Fin 5) (Fin 0))"
        "\<lparr>functionStack = [], calculatedVars = [''a'' \<mapsto> VComplex (new_Complex (Fin 5) (Fin 0))]\<rparr>"]
    by (simp add: getVariableIndex_def eval_string)
qed




subsection \<open>Assignments\<close>




text \<open>
  Claim C8. With no variable named \<open>a\<close>, the token sequence \<open>x\<close>, \<open>=a\<close>, \<open>a\<close>,
  \<open>a\<close>, \<open>*\<close> evaluates at \<open>x = 5\<close> to the one-element sequence \<open>[(25, 0)]\<close>.
\<close>

theorem assign_then_reuse:
  assumes "getVariableIndex variableList ''a'' = - 1"
  shows "evaluate complex_js variableList [''x'', ''=a'', ''a'', ''a'', ''*'']
           (VComplex (new_Complex (Fin 5) (Fin 0)))
         = Value [VComplex (new_Complex (Fin 25) (Fin 0))]"
proof -
  let ?five = "VComplex (new_Complex (Fin 5) (Fin 0))"
  let ?run = "exec_line complex_js variableList ?five"
  have 1: "?run ''x'' initial = Value \<lparr>functionStack = [?five], calculatedVars = Map.empty\<rparr>"
    by (simp add: exec_line_def initial_def eval_string)
  have 2: "?run ''=a'' \<lparr>functionStack = [?five], calculatedVars = Map.empty\<rparr>
             = Value \<lparr>functionStack = [], calculatedVars = [''a'' \<mapsto> ?five]\<rparr>"
    by (simp add: exec_line_def eval_string pop_def set_property_def bind_outcome_def Let_def)
  have 3: "?run ''a'' \<lparr>functionStack = s, calculatedVars = [''a'' \<mapsto> ?five]\<rparr>
             = Value \<lparr>functionStack = s @ [?five], calculatedVars = [''a'' \<mapsto> ?five]\<rparr>" for s
    using assms
    by (simp add: exec_line_def eval_string operations_def has_property_def get_property_def Let_def)
  have m: "Complex_multiply (new_Complex (Fin 5) (Fin 0)) (new_Complex (Fin 5) (Fin 0))
             = new_Complex (Fin 25) (Fin 0)"
    by (simp add: Complex_multiply_def new_Complex_def js_sub_def js_result_moderate)
  have 4: "?run ''*'' \<lparr>functionStack = [?five, ?five], calculatedVars = [''a'' \<mapsto> ?five]\<rparr>
             = Value \<lparr>functionStack = [VComplex (new_Complex (Fin 25) (Fin 0))],
                      calculatedVars = [''a'' \<mapsto> ?five]\<rparr>"
    by (simp add: exec_line_def eval_string operations_def slice_def shorten_def apply_method_def
        binary_def argument_def bind_outcome_def Let_def m)
  show ?thesis
    using 3[of "[]"] 3[of "[?five]"]
    by (simp add: evaluate_def 1 2 4 bind_outcome_def)
qed

theorem assign_then_reuse_witness:
  "getVariableIndex default_variableList ''a'' = - 1
   \<and> evaluate absent_complex_js default_variableList [''x'', ''=a'', ''a'', ''a'', ''*'']
           (VComplex (new_Complex (Fin 5) (Fin 0)))
         = Value [VComplex (new_Complex (Fin 25) (Fin 0))]"
proof -
  have g: "getVariableIndex default_variableList ''a'' = - 1"
    by (simp add: getVariableIndex_def default_variableList_def)
  show ?thesis using g assign_then_reuse[OF g, of absent_complex_js] by simp
qed

subsection \<open>Operations\<close>

lemma coerce_cases:
  "coerce v = Throw TypeError \<and> v = VUndefined \<or> (\<exists>c. coerce v = Value c) \<and> v \<noteq> VUndefined"
  by (cases v) simp_all

lemma read_fields_cases:
  "read_fields v = Throw TypeError \<and> v = VUndefined
   \<or> (\<exists>c. read_fields v = Value c) \<and> v \<noteq> VUndefined"
  by (cases v) simp_all

text \<open>A method of two parameters called with fewer arguments reads a property of \<open>undefined\<close>.\<close>

lemma binary_short: "length vs < 2 \<Longrightarrow> binary f vs = Throw TypeError"
  using coerce_cases[of "argument vs 0"]
  by (auto simp: binary_def bind_outcome_def argument_def)

lemma binary_defined:
  assumes "length vs = 2" and "VUndefined \<notin> set vs"
  shows "\<exists>c. binary f vs = Value (VComplex c)"
proof -
  from assms(1) obtain a b where v: "vs = [a, b]"
    by (cases vs; cases "tl vs") auto
  with assms(2) have "a \<noteq> VUndefined" "b \<noteq> VUndefined" by auto
  then obtain x y where "coerce a = Value x" "coerce b = Value y"
    using coerce_cases[of a] coerce_cases[of b] by auto
  thus ?thesis by (simp add: binary_def bind_outcome_def argument_def v)
qed

lemma apply_method_short:
  assumes "operations line = Some operation" and "in_Complex_class (op_function operation)"
    and "length vs < args operation"
  shows "apply_method complex_js (op_function operation) vs = Throw TypeError"
proof -
  from operations_args[OF assms(1)] show ?thesis
  proof
    assume "args operation = 2
            \<and> op_function operation \<in> {M_add, M_subtract, M_multiply, M_divide, M_raise}"
    with assms(3) show ?thesis by (auto simp: apply_method_def binary_short)
  next
    assume a: "args operation = 1
               \<and> op_function operation \<notin> {M_add, M_subtract, M_multiply, M_divide, M_raise}"
    with assms(3) have "vs = []" by simp
    with a assms(2) show ?thesis
      by (auto simp: apply_method_def in_Complex_class_def argument_def bind_outcome_def)
  qed
qed

lemma apply_method_defined:
  assumes "operations line = Some operation" and "in_Complex_class (op_function operation)"
    and "length vs = args operation" and "VUndefined \<notin> set vs"
  shows "\<exists>c. apply_method complex_js (op_function operation) vs = Value (VComplex c)"
proof -
  from operations_args[OF assms(1)] show ?thesis
  proof
    assume a: "args operation = 2
               \<and> op_function operation \<in> {M_add, M_subtract, M_multiply, M_divide, M_raise}"
    with assms(3) have "length vs = 2" by simp
    from binary_defined[OF this assms(4)] a show ?thesis
      by (auto simp: apply_method_def)
  next
    assume a: "args operation = 1
               \<and> op_function operation \<notin> {M_add, M_subtract, M_multiply, M_divide, M_raise}"
    with assms(3) obtain v where v: "vs = [v]" by (cases vs) auto
    with assms(4) have "v \<noteq> VUndefined" by auto
    then obtain x y where "coerce v = Value x" "read_fields v = Value y"
      using coerce_cases[of v] read_fields_cases[of v] by auto
    with a assms(2) v show ?thesis
      by (auto simp: apply_method_def in_Complex_class_def argument_def bind_outcome_def)
  qed
qed

lemma slice_short: "length a < k \<Longrightarrow> length (slice a (int (length a) - int k)) < k"
  by (simp add: slice_def Let_def)

lemma slice_enough: "k \<le> length a \<Longrightarrow> slice a (int (length a) - int k) = drop (length a - k) a"
  by (simp add: slice_def Let_def nat_diff_distrib')

lemma exec_operation:
  assumes "operations (trim raw) = Some operation"
  shows "exec_line complex_js variableList num raw st =
     bind_outcome (apply_method complex_js (op_function operation)
                     (slice (functionStack st) (int (length (functionStack st)) - int (args operation))))
       (\<lambda>v. bind_outcome (shorten (functionStack st) (args operation))
          (\<lambda>rest. Value (st\<lparr>functionStack := rest @ [v]\<rparr>)))"
  using assms operations_names[OF assms] by (simp add: exec_line_def Let_def)

text \<open>
  Claim C4 says that an operation on a stack of at least as many values as it takes
  always pushes one result. It does not when an operand is \<open>undefined\<close>: after \<open>=a\<close>
  on the empty stack, \<open>a\<close>, \<open>a\<close> puts two values on the stack, and \<open>+\<close> throws.
\<close>

theorem operator_on_undefined_counterexample:
  "exec_lines absent_complex_js default_variableList (VComplex (new_Complex (Fin 5) (Fin 0)))
      [''=a'', ''a'', ''a''] initial
     = Value \<lparr>functionStack = [VUndefined, VUndefined], calculatedVars = [''a'' \<mapsto> VUndefined]\<rparr>
   \<and> operations ''+'' = Some \<lparr>args = 2, op_function = M_add\<rparr>
   \<and> exec_line absent_complex_js default_variableList (VComplex (new_Complex (Fin 5) (Fin 0))) ''+''
        \<lparr>functionStack = [VUndefined, VUndefined], calculatedVars = [''a'' \<mapsto> VUndefined]\<rparr>
     = Throw TypeError
   \<and> evaluate absent_complex_js default_variableList [''=a'', ''a'', ''a'', ''+'']
        (VComplex (new_Complex (Fin 5) (Fin 0)))
     = Throw TypeError"
  by (simp add: evaluate_def initial_def default_variableList_def eval_step eval_string)

text \<open>
  Claim C4, amended. For every operation of the table, taking \<open>k\<close> values: on a stack of
  fewer than \<open>k\<close> values a method of the class \<open>Complex\<close> throws a \<open>TypeError\<close> (the
  code has no error of its own for an underflow), and so does the one-token program
  \<open>+\<close>; on a stack of at least \<open>k\<close> values the method is called on the top \<open>k\<close>
  values in the order of the stack, and when it returns, the result replaces them; a
  method of the class \<open>Complex\<close> returns a \<open>Complex\<close> whenever none of the \<open>k\<close>
  values is \<open>undefined\<close>.
\<close>

theorem operator_step:
  assumes "operations (trim raw) = Some operation"
  shows "(length (functionStack st) < args operation \<and> in_Complex_class (op_function operation)
            \<longrightarrow> exec_line complex_js variableList num raw st = Throw TypeError)
       \<and> (args operation \<le> length (functionStack st)
            \<longrightarrow> exec_line complex_js variableList num raw st =
                 bind_outcome
                   (apply_method complex_js (op_function operation)
                      (drop (length (functionStack st) - args operation) (functionStack st)))
                   (\<lambda>v. Value (st\<lparr>functionStack :=
                           take (length (functionStack st) - args operation) (functionStack st) @ [v]\<rparr>)))
       \<and> (args operation \<le> length (functionStack st) \<and> in_Complex_class (op_function operation)
            \<and> VUndefined \<notin> set (drop (length (functionStack st) - args operation) (functionStack st))
            \<longrightarrow> (\<exists>c. exec_line complex_js variableList num raw st =
                      Value (st\<lparr>functionStack :=
                           take (length (functionStack st) - args operation) (functionStack st)
                           @ [VComplex c]\<rparr>)))
       \<and> evaluate complex_js variableList [''+''] num = Throw TypeError"
proof (intro conjI impI)
  assume a: "length (functionStack st) < args operation \<and> in_Complex_class (op_function operation)"
  hence "apply_method complex_js (op_function operation)
           (slice (functionStack st) (int (length (functionStack st)) - int (args operation)))
         = Throw TypeError"
    using apply_method_short[OF assms] slice_short by blast
  thus "exec_line complex_js variableList num raw st = Throw TypeError"
    by (simp add: exec_operation[OF assms] bind_outcome_def)
next
  assume a: "args operation \<le> length (functionStack st)"
  thus "exec_line complex_js variableList num raw st =
          bind_outcome
            (apply_method complex_js (op_function operation)
               (drop (length (functionStack st) - args operation) (functionStack st)))
            (\<lambda>v. Value (st\<lparr>functionStack :=
                    take (length (functionStack st) - args operation) (functionStack st) @ [v]\<rparr>))"
    by (simp add: exec_operation[OF assms] slice_enough shorten_def bind_outcome_def)
next
  assume a: "args operation \<le> length (functionStack st) \<and> in_Complex_class (op_function operation)
            \<and> VUndefined \<notin> set (drop (length (functionStack st) - args operation) (functionStack st))"
  let ?top = "drop (length (functionStack st) - args operation) (functionStack st)"
  from a have "length ?top = args operation" by simp
  from apply_method_defined[OF assms _ this] a
  obtain c where "apply_method complex_js (op_function operation) ?top = Value (VComplex c)"
    by blast
  with a show "\<exists>c. exec_line complex_js variableList num raw st =
                  Value (st\<lparr>functionStack :=
                       take (length (functionStack st) - args operation) (functionStack st)
                       @ [VComplex c]\<rparr>)"
    by (auto simp: exec_operation[OF assms] slice_enough shorten_def bind_outcome_def)
next
  show "evaluate complex_js variableList [''+''] num = Throw TypeError"
    by (simp add: evaluate_def initial_def exec_line_def eval_string operations_def slice_def
        apply_method_def binary_short bind_outcome_def Let_def)
qed

theorem operator_step_witness:
  "operations (trim '' - '') = Some \<lparr>args = 2, op_function = M_subtract\<rparr>
   \<and> exec_line absent_complex_js default_variableList (VComplex (new_Complex (Fin 5) (Fin 0))) '' - ''
        \<lparr>functionStack = [VComplex (new_Complex (Fin 1) (Fin 1))], calculatedVars = Map.empty\<rparr>
       = Throw TypeError
   \<and> exec_line absent_complex_js default_variableList (VComplex (new_Complex (Fin 5) (Fin 0))) '' - ''
        \<lparr>functionStack = [VNumber (Fin 9), VComplex (new_Complex (Fin 5) (Fin 1)),
                          VComplex (new_Complex (Fin 3) (Fin 0))],
          calculatedVars = Map.empty\<rparr>
       = Value \<lparr>functionStack = [VNumber (Fin 9), VComplex (new_Complex (Fin 2) (Fin 1))],
                calculatedVars = Map.empty\<rparr>"
proof -
  have o: "operations (trim '' - '') = Some \<lparr>args = 2, op_function = M_subtract\<rparr>"
    by (simp add: operations_def eval_string)
  have s: "apply_method absent_complex_js M_subtract
             [VComplex (new_Complex (Fin 5) (Fin 1)), VComplex (new_Complex (Fin 3) (Fin 0))]
           = Value (VComplex (new_Complex (Fin 2) (Fin 1)))"
    by (simp add: apply_method_def binary_def argument_def bind_outcome_def Complex_subtract_def
        new_Complex_def js_sub_def js_result_moderate)
  show ?thesis
    using o
      operator_step[OF o, of
        "\<lparr>functionStack = [VComplex (new_Complex (Fin 1) (Fin 1))], calculatedVars = Map.empty\<rparr>"
        absent_complex_js default_variableList "VComplex (new_Complex (Fin 5) (Fin 0))"]
      operator_step[OF o, of
        "\<lparr>functionStack = [VNumber (Fin 9), VComplex (new_Complex (Fin 5) (Fin 1)),
                            VComplex (new_Complex (Fin 3) (Fin 0))],
          calculatedVars = Map.empty\<rparr>"
        absent_complex_js default_variableList "VComplex (new_Complex (Fin 5) (Fin 0))"]
    by (simp add: in_Complex_class_def s bind_outcome_def)
qed

section \<open>Properties of the batch of evaluations\<close>

text \<open>
  When the quotient \<open>(end - begin) / step\<close> is \<open>Infinity\<close> and the function returns at
  every sample, no supply of iterations is enough: the loop does not end.
\<close>

lemma sample_loop_unbounded:
  assumes "js_div (js_sub end begin) step = PInf"
    and "\<And>v. \<exists>result. func v = Value result"
  shows "sample_loop fuel func begin end step i resultList = None"
proof (induction fuel arbitrary: i resultList)
  case 0
  show ?case by simp
next
  case (Suc fuel)
  obtain result
    where "func (VComplex (new_Complex (js_add (js_mul (Fin (real i)) step) begin) (Fin 0)))
             = Value result"
    using assms(2) by blast
  thus ?case using assms(1) Suc.IH by (simp add: Let_def)
qed

text \<open>
  When the quotient \<open>(end - begin) / step\<close> is a finite number \<open>q\<close> and the function
  returns at every sample, the loop ends: from the index \<open>i\<close> it adds one result for each
  index up to \<open>floor(q)\<close>, and any larger supply of iterations is enough.
\<close>

lemma sample_loop_ends:
  assumes q: "js_div (js_sub end begin) step = Fin q"
    and f: "\<And>v. \<exists>result. func v = Value result"
  shows "n = (if real i \<le> q then nat \<lfloor>q\<rfloor> + 1 - i else 0) \<Longrightarrow> n < fuel \<Longrightarrow>
         \<exists>rs. sample_loop fuel func begin end step i resultList
                = Some (Value (resultList @ rs))
              \<and> length rs = n"
proof (induction fuel arbitrary: i resultList n)
  case 0
  thus ?case by simp
next
  case (Suc fuel)
  have c: "js_le (Fin (real i)) (js_div (js_sub end begin) step) \<longleftrightarrow> real i \<le> q"
    by (simp add: q)
  show ?case
  proof (cases "real i \<le> q")
    case False
    with Suc.prems c show ?thesis by simp
  next
    case True
    hence fl: "int i \<le> \<lfloor>q\<rfloor>" by (simp add: le_floor_iff)
    obtain result
      where r: "func (VComplex (new_Complex (js_add (js_mul (Fin (real i)) step) begin) (Fin 0)))
                  = Value result"
      using f by blast
    let ?n' = "if real (Suc i) \<le> q then nat \<lfloor>q\<rfloor> + 1 - Suc i else 0"
    have n': "Suc ?n' = n"
    proof (cases "real (Suc i) \<le> q")
      case True
      hence "int (Suc i) \<le> \<lfloor>q\<rfloor>" by (simp only: le_floor_iff of_int_of_nat_eq)
      with Suc.prems(1) \<open>real i \<le> q\<close> True show ?thesis by (simp; linarith)
    next
      case False
      hence "\<not> int (Suc i) \<le> \<lfloor>q\<rfloor>"
        by (simp only: le_floor_iff of_int_of_nat_eq not_False_eq_True)
      with fl have "\<lfloor>q\<rfloor> = int i" by simp
      with Suc.prems(1) \<open>real i \<le> q\<close> False show ?thesis by simp
    qed
    with Suc.prems(2) have "?n' < fuel" by linarith
    from Suc.IH[OF refl this, of "resultList @ [result]"]
    obtain rs where "sample_loop fuel func begin end step (Suc i) (resultList @ [result])
        = Some (Value ((resultList @ [result]) @ rs))" and "length rs = ?n'"
      by blast
    with True c r n' show ?thesis
      by (intro exI[of _ "result # rs"]) (simp add: Let_def)
  qed
qed

lemma evaluate_x: "evaluate complex_js variableList [''x''] num = Value [num]"
  by (simp add: evaluate_def initial_def exec_line_def eval_string bind_outcome_def)

text \<open>
  Claim C9 says that a resolution of zero is taken as \<open>0.05\<close>, so that the batch ends.
  \<open>updateCanvas\<close> does that for drawing; \<open>updateFunctionValues\<close> does not. With the
  function \<open>x\<close>, \<open>minX = 0\<close>, \<open>maxX = 1\<close> and the resolution \<open>0\<close>, the bound of the
  loop is \<open>1 / 0 = Infinity\<close> and the batch does not end, whatever the supply of
  iterations.
\<close>

theorem zero_resolution_never_ends:
  "updateFunctionValues fuel (evaluate complex_js variableList [''x'']) ''0'' ''1'' ''0'' = None
   \<and> updateCanvas_resolution ''0'' = Fin (5 / 100)"
proof -
  have n: "StringToNumber ''0'' = Fin 0" "StringToNumber ''1'' = Fin 1"
    by (simp_all add: eval_number eval_string)
  have "js_div (js_sub (Fin 1) (Fin 0)) (Math_abs (Fin 0)) = PInf"
    by (simp add: js_sub_def signed_inf_def js_result_moderate)
  hence "sample_loop fuel (evaluate complex_js variableList [''x'']) (Fin 0) (Fin 1)
           (Math_abs (Fin 0)) 0 [] = None"
    by (rule sample_loop_unbounded) (simp add: evaluate_x)
  thus ?thesis
    by (simp add: updateFunctionValues_def updateCanvas_resolution_def n js_strict_eq_def)
qed

end
